theory Spec2Isabelle
  imports Main "HOL-Library.AList"
begin

section \<open>JavaScript values and the object heap\<close>

text \<open>
  The claims are about object identity and aliasing, so objects live in an explicit
  heap and a value refers to an object by its address.  A value is \<open>undefined\<close>,
  \<open>null\<close>, a boolean, an integral number, a string, a reference to a heap object, or
  an object or a function that the heap does not hold, known by its name (\<open>Builtin\<close>):
  \<open>Object.prototype\<close>, the other built-in prototypes and their methods, and any
  other function, such as a method of a nested model.

  A heap object is a plain object or an array.  It keeps its own enumerable properties
  in enumeration order (keys that are array indices first, in ascending order, then the
  other keys in the order of their creation) and has the prototype it was created
  with.  What the model does not follow is marked, not guessed: an operation that would
  change the prototype of an object, write into a built-in or need the string form of
  an object as a property key ends with \<open>OutsideModel\<close>.  Non-integral numbers, getters
  and setters defined by the program, listeners of events and validation are not
  modelled.
\<close>

type_synonym addr = nat

datatype val = Undefined | Null | Bool bool | Num int | Str string | Ptr addr | Builtin string

datatype obj =
    Obj "(string \<times> val) list"
  | Arr "val list" "(string \<times> val) list"

record heap =
  objs :: "addr \<Rightarrow> obj"
  nxt :: addr

text \<open>
  \<open>TypeError\<close> and \<open>RangeError\<close> are the exceptions the code can raise.
  \<open>OutsideModel\<close> is not an exception of the program: it ends a run that the model
  does not follow.
\<close>

datatype error = TypeError | RangeError | OutsideModel

text \<open>
  The members of \<open>Object.prototype\<close>, which every plain object inherits: reading
  \<open>__proto__\<close> gives \<open>Object.prototype\<close> itself, \<open>constructor\<close> the function
  \<open>Object\<close>, and the other names the methods.  Any other name is \<open>undefined\<close>.
\<close>

definition object_methods :: "string list" where
  "object_methods =
     [''hasOwnProperty'', ''isPrototypeOf'', ''propertyIsEnumerable'', ''toLocaleString'',
      ''toString'', ''valueOf'', ''__defineGetter__'', ''__defineSetter__'',
      ''__lookupGetter__'', ''__lookupSetter__'']"

definition object_member :: "string \<Rightarrow> val" where
  "object_member k =
     (if k = ''__proto__'' then Builtin ''Object.prototype''
      else if k = ''constructor'' then Builtin ''Object''
      else if k \<in> set object_methods then Builtin (''Object.prototype.'' @ k)
      else Undefined)"

text \<open>
  The rest of the host and the libraries are parameters.  \<open>isEqual\<close> is underscore's
  deep equality of two values in a heap.  \<open>inherited k name\<close> is what a value of kind
  \<open>k\<close> (an array, a string, a number, a boolean) that has no own property \<open>name\<close>
  gives for it: the member of its prototype chain, or \<open>undefined\<close>; for a built-in it
  is the member of that name, own or inherited.
  \<open>callBuiltin h f this arg\<close> is the result of calling the built-in function \<open>f\<close> with
  one string argument.  \<open>arrayToString h a\<close> is the string form of the array at \<open>a\<close>.
\<close>

datatype kind = KArray | KString | KNumber | KBoolean | KBuiltin string

record lib =
  isEqual :: "heap \<Rightarrow> val \<Rightarrow> val \<Rightarrow> bool"
  inherited :: "kind \<Rightarrow> string \<Rightarrow> val"
  callBuiltin :: "heap \<Rightarrow> string \<Rightarrow> val \<Rightarrow> string \<Rightarrow> error + val"
  arrayToString :: "heap \<Rightarrow> addr \<Rightarrow> error + string"

text \<open>A new object takes the next address.\<close>

definition new_obj :: "heap \<Rightarrow> obj \<Rightarrow> heap" where
  "new_obj h ob = h\<lparr>objs := (objs h)(nxt h := ob), nxt := Suc (nxt h)\<rparr>"

definition alloc :: "heap \<Rightarrow> obj \<Rightarrow> heap \<times> val" where
  "alloc h ob = (new_obj h ob, Ptr (nxt h))"

text \<open>
  The built-in prototype objects; every other built-in is a function.
  \<open>typeof v === "object"\<close> is true of \<open>null\<close>, of every object and array, and of a
  built-in prototype object.
\<close>

definition builtin_is_object :: "string \<Rightarrow> bool" where
  "builtin_is_object n =
     (n \<in> set [''Object.prototype'', ''Array.prototype'', ''String.prototype'',
               ''Number.prototype'', ''Boolean.prototype''])"

fun typeof_object :: "val \<Rightarrow> bool" where
  "typeof_object Null = True"
| "typeof_object (Ptr a) = True"
| "typeof_object (Builtin n) = builtin_is_object n"
| "typeof_object v = False"

fun typeof_function :: "val \<Rightarrow> bool" where
  "typeof_function (Builtin n) = (\<not> builtin_is_object n)"
| "typeof_function v = False"

fun nullOrUndefined :: "val \<Rightarrow> bool" where
  "nullOrUndefined Undefined = True"
| "nullOrUndefined Null = True"
| "nullOrUndefined v = False"

text \<open>Truthiness, and the values that a write to \<open>__proto__\<close> ignores.\<close>

fun truthy :: "val \<Rightarrow> bool" where
  "truthy Undefined = False"
| "truthy Null = False"
| "truthy (Bool b) = b"
| "truthy (Num n) = (n \<noteq> 0)"
| "truthy (Str s) = (s \<noteq> [])"
| "truthy (Ptr a) = True"
| "truthy (Builtin n) = True"

fun is_primitive :: "val \<Rightarrow> bool" where
  "is_primitive Undefined = True"
| "is_primitive (Bool b) = True"
| "is_primitive (Num n) = True"
| "is_primitive (Str s) = True"
| "is_primitive v = False"

subsection \<open>Numbers as strings, array indices\<close>

definition digit_char :: "nat \<Rightarrow> char" where
  "digit_char d = char_of (48 + d)"

fun nat_to_string :: "nat \<Rightarrow> string" where
  "nat_to_string n =
     (if n < 10 then [digit_char n] else nat_to_string (n div 10) @ [digit_char (n mod 10)])"

declare nat_to_string.simps [simp del]

definition int_to_string :: "int \<Rightarrow> string" where
  "int_to_string i = (if i < 0 then CHR ''-'' # nat_to_string (nat (- i)) else nat_to_string (nat i))"

definition is_digit :: "char \<Rightarrow> bool" where
  "is_digit c = ((48::nat) \<le> of_char c \<and> of_char c \<le> (57::nat))"

fun parse_digits :: "nat \<Rightarrow> string \<Rightarrow> nat option" where
  "parse_digits acc [] = Some acc"
| "parse_digits acc (c # cs) =
     (if is_digit c then parse_digits (10 * acc + (of_char c - (48::nat))) cs else None)"

text \<open>
  A property key is an array index when it is the canonical decimal form of a number
  below \<open>2^32 - 1\<close>.
\<close>

definition array_index :: "string \<Rightarrow> nat option" where
  "array_index k =
     (if k = [] then None
      else case parse_digits 0 k of
             None \<Rightarrow> None
           | Some i \<Rightarrow> if nat_to_string i = k \<and> i < 2 ^ 32 - 1 then Some i else None)"

subsection \<open>Property reads and writes\<close>

text \<open>
  \<open>v[k]\<close>.  Reading a property of \<open>undefined\<close> or \<open>null\<close> raises a TypeError.  An own
  property wins; a property the value does not have itself is looked up in its
  prototype chain, which is \<open>inherited\<close>.
\<close>

definition get_prop :: "lib \<Rightarrow> heap \<Rightarrow> val \<Rightarrow> string \<Rightarrow> error + val" where
  "get_prop L h v k =
     (case v of
        Undefined \<Rightarrow> Inl TypeError
      | Null \<Rightarrow> Inl TypeError
      | Bool b \<Rightarrow> Inr (inherited L KBoolean k)
      | Num n \<Rightarrow> Inr (inherited L KNumber k)
      | Str s \<Rightarrow>
          (case array_index k of
             Some i \<Rightarrow> Inr (if i < length s then Str [s ! i] else inherited L KString k)
           | None \<Rightarrow> Inr (if k = ''length'' then Num (int (length s)) else inherited L KString k))
      | Ptr a \<Rightarrow>
          (case objs h a of
             Obj ps \<Rightarrow>
               Inr (case map_of ps k of Some x \<Rightarrow> x | None \<Rightarrow> object_member k)
           | Arr es ps \<Rightarrow>
               (case array_index k of
                  Some i \<Rightarrow> Inr (if i < length es then es ! i else inherited L KArray k)
                | None \<Rightarrow>
                    Inr (if k = ''length'' then Num (int (length es))
                         else (case map_of ps k of Some x \<Rightarrow> x | None \<Rightarrow> inherited L KArray k))))
      | Builtin n \<Rightarrow> Inr (inherited L (KBuiltin n) k))"

text \<open>
  \<open>v[k] = x\<close> in strict mode.  An existing property keeps its place; a new one goes
  to the end, or among the array indices when its key is one.  For an object without
  an own property \<open>__proto__\<close>, a write to \<open>__proto__\<close> is the inherited setter: it
  does nothing for a primitive value and changes the prototype otherwise.

  Writing past the end of an array pads it with \<open>undefined\<close>.  A write to an array's
  \<open>length\<close> takes the value as a number: it resizes the array for a number in range
  and raises a RangeError otherwise; \<open>undefined\<close> and an empty plain object are not
  numbers, \<open>null\<close> is 0 and a boolean 0 or 1 (the number that a string, a built-in or
  another object stands for is not modelled).  A write to a property of a value that
  is not an object raises a TypeError.
\<close>

definition resize :: "nat \<Rightarrow> val list \<Rightarrow> val list" where
  "resize n es = take n es @ replicate (n - length es) Undefined"

fun insert_index :: "nat \<Rightarrow> string \<Rightarrow> val \<Rightarrow> (string \<times> val) list \<Rightarrow> (string \<times> val) list" where
  "insert_index i k x [] = [(k, x)]"
| "insert_index i k x (p # ps) =
     (case array_index (fst p) of
        Some j \<Rightarrow> if j < i then p # insert_index i k x ps else (k, x) # p # ps
      | None \<Rightarrow> (k, x) # p # ps)"

definition put_own :: "(string \<times> val) list \<Rightarrow> string \<Rightarrow> val \<Rightarrow> (string \<times> val) list" where
  "put_own ps k x =
     (case array_index k of
        None \<Rightarrow> AList.update k x ps
      | Some i \<Rightarrow> if map_of ps k = None then insert_index i k x ps else AList.update k x ps)"

definition put_named :: "(string \<times> val) list \<Rightarrow> string \<Rightarrow> val \<Rightarrow> error + (string \<times> val) list" where
  "put_named ps k x =
     (if k = ''__proto__'' \<and> map_of ps k = None
      then (if is_primitive x then Inr ps else Inl OutsideModel)
      else Inr (put_own ps k x))"

definition put_length :: "heap \<Rightarrow> val \<Rightarrow> val list \<Rightarrow> error + val list" where
  "put_length h x es =
     (case x of
        Num n \<Rightarrow> if 0 \<le> n \<and> n < 2 ^ 32 then Inr (resize (nat n) es) else Inl RangeError
      | Undefined \<Rightarrow> Inl RangeError
      | Null \<Rightarrow> Inr (resize 0 es)
      | Bool b \<Rightarrow> Inr (resize (if b then 1 else 0) es)
      | Ptr a \<Rightarrow> (case objs h a of Obj [] \<Rightarrow> Inl RangeError | _ \<Rightarrow> Inl OutsideModel)
      | _ \<Rightarrow> Inl OutsideModel)"

definition put_prop :: "heap \<Rightarrow> val \<Rightarrow> string \<Rightarrow> val \<Rightarrow> error + heap" where
  "put_prop h t k x =
     (case t of
        Ptr a \<Rightarrow>
          (case objs h a of
             Obj ps \<Rightarrow>
               (case put_named ps k x of
                  Inl e \<Rightarrow> Inl e
                | Inr ps' \<Rightarrow> Inr (h\<lparr>objs := (objs h)(a := Obj ps')\<rparr>))
           | Arr es ps \<Rightarrow>
               (case array_index k of
                  Some i \<Rightarrow> Inr (h\<lparr>objs := (objs h)(a := Arr ((resize (Suc i) es)[i := x]) ps)\<rparr>)
                | None \<Rightarrow>
                    if k = ''length'' then
                      (case put_length h x es of
                         Inl e \<Rightarrow> Inl e
                       | Inr es' \<Rightarrow> Inr (h\<lparr>objs := (objs h)(a := Arr es' ps)\<rparr>))
                    else
                      (case put_named ps k x of
                         Inl e \<Rightarrow> Inl e
                       | Inr ps' \<Rightarrow> Inr (h\<lparr>objs := (objs h)(a := Arr es ps')\<rparr>))))
      | Builtin n \<Rightarrow> Inl OutsideModel
      | _ \<Rightarrow> Inl TypeError)"

text \<open>
  Underscore's \<open>_.clone\<close>: a value that is not an object is returned as it is, an array
  is copied with \<open>slice\<close> (its elements only), any other object gets its enumerable
  properties assigned one by one to a new object (so an own \<open>__proto__\<close> of the source
  goes through the setter of the copy).  The copy is shallow.  A built-in has no
  enumerable property.
\<close>

definition copy_props :: "(string \<times> val) list \<Rightarrow> error + (string \<times> val) list" where
  "copy_props ps =
     (case map_of ps ''__proto__'' of
        None \<Rightarrow> Inr ps
      | Some x \<Rightarrow>
          if is_primitive x then Inr (filter (\<lambda>kv. fst kv \<noteq> ''__proto__'') ps)
          else Inl OutsideModel)"

definition clone :: "heap \<Rightarrow> val \<Rightarrow> error + heap \<times> val" where
  "clone h v =
     (case v of
        Ptr a \<Rightarrow>
          (case objs h a of
             Obj ps \<Rightarrow> (case copy_props ps of Inl e \<Rightarrow> Inl e | Inr ps' \<Rightarrow> Inr (alloc h (Obj ps')))
           | Arr es ps \<Rightarrow> Inr (alloc h (Arr es [])))
      | Builtin n \<Rightarrow>
          Inr (alloc h (if n = ''Array.prototype'' then Arr [] [] else Obj []))
      | _ \<Rightarrow> Inr (h, v))"

text \<open>\<open>s.split(".")\<close>: never empty; an empty string gives one empty piece.\<close>

fun split_dot :: "string \<Rightarrow> string list" where
  "split_dot [] = [[]]"
| "split_dot (c # cs) =
     (if c = CHR ''.'' then [] # split_dot cs
      else (case split_dot cs of [] \<Rightarrow> [[c]] | p # ps \<Rightarrow> (c # p) # ps))"

section \<open>The model: attribute bag and fired events\<close>

text \<open>
  Backbone's model, as far as the extension uses it: the attribute bag
  \<open>this.attributes\<close>, a plain object, and the events fired so far, oldest first.  An
  event carries its name and its arguments; the model itself as an argument is
  \<open>AModel\<close>.  The bag is never enumerated by the extension, so its keys are kept in
  the order of their creation.
\<close>

datatype arg = AModel | AVal val

type_synonym event = "string \<times> arg list"

record model =
  mheap :: heap
  attributes :: "(string \<times> val) list"
  events :: "event list"

text \<open>Backbone's own \<open>get\<close>: \<open>this.attributes[attr]\<close>, a read of a plain object.\<close>

definition oldGet :: "model \<Rightarrow> string \<Rightarrow> val" where
  "oldGet m attr =
     (case map_of (attributes m) attr of Some x \<Rightarrow> x | None \<Rightarrow> object_member attr)"

text \<open>
  The \<open>while\<close> loop of \<open>get\<close>: it runs while pieces remain and the value is neither
  \<open>undefined\<close> nor \<open>null\<close>.  A value whose \<open>get\<close> is a function is asked with
  \<open>val.get(pc)\<close>; any other value is read with \<open>val[pc]\<close>.  The call is taken to
  return a value or throw, and to leave the heap as it is.
\<close>

definition get_step :: "lib \<Rightarrow> heap \<Rightarrow> val \<Rightarrow> string \<Rightarrow> error + val" where
  "get_step L h val pc =
     (case get_prop L h val ''get'' of
        Inl e \<Rightarrow> Inl e
      | Inr g \<Rightarrow>
          (case g of
             Builtin f \<Rightarrow>
               if typeof_function g then callBuiltin L h f val pc else get_prop L h val pc
           | _ \<Rightarrow> get_prop L h val pc))"

fun get_loop :: "lib \<Rightarrow> heap \<Rightarrow> val \<Rightarrow> string list \<Rightarrow> error + val" where
  "get_loop L h val [] = Inr val"
| "get_loop L h val (pc # pcs) =
     (if val \<noteq> Undefined \<and> val \<noteq> Null
      then (case get_step L h val pc of Inl e \<Rightarrow> Inl e | Inr val' \<Rightarrow> get_loop L h val' pcs)
      else Inr val)"

definition get :: "lib \<Rightarrow> model \<Rightarrow> string \<Rightarrow> error + val" where
  "get L m attribute =
     (let pcs = split_dot attribute in
      if length pcs = 1 then Inr (oldGet m attribute)
      else get_loop L (mheap m) (oldGet m (hd pcs)) (tl pcs))"

section \<open>Nested set\<close>

text \<open>A call either returns or throws; the model it leaves behind is kept in both cases.\<close>

datatype completion = Normal | Throw error

text \<open>
  \<open>silentOptions = _.extend({}, options, {silent: true})\<close> is handed to Backbone's
  own \<open>set\<close>, which reads \<open>unset\<close> from it: the enumerable properties of an options
  object are assigned to a new object, and \<open>unset\<close> is read there.  (The new object
  itself is dropped after the call and not allocated in the model.)
\<close>

definition silent_unset :: "heap \<Rightarrow> val \<Rightarrow> error + bool" where
  "silent_unset h options =
     (case (case options of
              Ptr a \<Rightarrow> copy_props (case objs h a of Obj ps \<Rightarrow> ps | Arr es ps \<Rightarrow> ps)
            | _ \<Rightarrow> Inr []) of
        Inl e \<Rightarrow> Inl e
      | Inr ps \<Rightarrow>
          Inr (truthy (case map_of ps ''unset'' of
                         Some x \<Rightarrow> x | None \<Rightarrow> object_member ''unset'')))"

text \<open>
  Backbone's own \<open>set(key, val, silentOptions)\<close>: it fires nothing, and stores the value
  under the key or, with \<open>unset\<close>, deletes the key.  It goes through the hash
  \<open>{key: val}\<close>, so the key \<open>__proto__\<close> stores nothing.
\<close>

definition oldSet_silent :: "model \<Rightarrow> string \<Rightarrow> val \<Rightarrow> bool \<Rightarrow> error + model" where
  "oldSet_silent m k v unset =
     (case put_named [] k v of
        Inl e \<Rightarrow> Inl e
      | Inr attrs \<Rightarrow>
          Inr (if attrs = [] then m
               else m\<lparr>attributes := (if unset then AList.delete k (attributes m)
                                      else AList.update k v (attributes m))\<rparr>))"

definition trigger :: "model \<Rightarrow> string \<Rightarrow> arg list \<Rightarrow> model" where
  "trigger m name args = m\<lparr>events := events m @ [(name, args)]\<rparr>"

text \<open>
  The \<open>while (pcs.length > 1)\<close> loop.  One round, \<open>walk_step\<close>, tests and fills
  \<open>toSet[nextPc]\<close>, the top-level copy, and gives \<open>toSet[nextPc]\<close> as the new
  \<open>ptr\<close>.  The result of the loop is the heap, \<open>ptr\<close> and the pieces left (one, the
  last), or the error thrown and the heap at that moment.
\<close>

definition walk_step :: "lib \<Rightarrow> heap \<Rightarrow> val \<Rightarrow> string \<Rightarrow> error \<times> heap + heap \<times> val" where
  "walk_step L h toSet nextPc =
     (case get_prop L h toSet nextPc of
        Inl e \<Rightarrow> Inl (e, h)
      | Inr cur \<Rightarrow>
          (case (if \<not> typeof_object cur
                 then (case alloc h (Obj []) of (h1, fresh) \<Rightarrow>
                         (case put_prop h1 toSet nextPc fresh of
                            Inl e \<Rightarrow> Inl (e, h1) | Inr h2 \<Rightarrow> Inr h2))
                 else Inr h) of
             Inl eh \<Rightarrow> Inl eh
           | Inr h2 \<Rightarrow>
               (case get_prop L h2 toSet nextPc of
                  Inl e \<Rightarrow> Inl (e, h2)
                | Inr ptr' \<Rightarrow> Inr (h2, ptr'))))"

fun set_walk :: "lib \<Rightarrow> heap \<Rightarrow> val \<Rightarrow> val \<Rightarrow> string list \<Rightarrow> error \<times> heap + heap \<times> val \<times> string list" where
  "set_walk L h toSet ptr (nextPc # pc2 # pcs) =
     (case walk_step L h toSet nextPc of
        Inl eh \<Rightarrow> Inl eh
      | Inr (h2, ptr') \<Rightarrow> set_walk L h2 toSet ptr' (pc2 # pcs))"
| "set_walk L h toSet ptr pcs = Inr (h, ptr, pcs)"

text \<open>
  The body of \<open>_.each(attrHash, ...)\<close> for one pair; \<open>triggerChange\<close> is threaded
  through.  \<open>set_nested\<close> is the branch \<open>pcs.length > 0\<close>, \<open>set_top\<close> the other one.
\<close>

definition set_nested ::
  "lib \<Rightarrow> val \<Rightarrow> bool \<Rightarrow> model \<Rightarrow> bool \<Rightarrow> string \<Rightarrow> val \<Rightarrow> string \<Rightarrow> string list
     \<Rightarrow> heap \<Rightarrow> val \<Rightarrow> completion \<times> model \<times> bool" where
  "set_nested L options unset m triggerChange attribute value firstPc pcs h1 topLevelValue =
     (case (if \<not> typeof_object topLevelValue then alloc h1 (Obj []) else (h1, topLevelValue)) of
        (h2, toSet) \<Rightarrow>
          (case set_walk L h2 toSet toSet pcs of
             Inl (e, h3) \<Rightarrow> (Throw e, m\<lparr>mheap := h3\<rparr>, triggerChange)
           | Inr (h3, ptr, pcs') \<Rightarrow>
               let lastPc = hd pcs';
                   m3 = m\<lparr>mheap := h3\<rparr>
               in (case get L m3 attribute of
                     Inl e \<Rightarrow> (Throw e, m3, triggerChange)
                   | Inr oldVal \<Rightarrow>
                       if isEqual L h3 oldVal value then (Normal, m3, triggerChange)
                       else (case put_prop h3 ptr lastPc value of
                               Inl e \<Rightarrow> (Throw e, m3, True)
                             | Inr h4 \<Rightarrow>
                                 (case oldSet_silent (m\<lparr>mheap := h4\<rparr>) firstPc toSet unset of
                                    Inl e \<Rightarrow> (Throw e, m\<lparr>mheap := h4\<rparr>, True)
                                  | Inr m5 \<Rightarrow>
                                      (Normal,
                                       trigger m5 (''change:'' @ attribute)
                                         [AModel, AVal value, AVal options],
                                       True))))))"

definition set_top ::
  "lib \<Rightarrow> val \<Rightarrow> bool \<Rightarrow> model \<Rightarrow> bool \<Rightarrow> val \<Rightarrow> string
     \<Rightarrow> heap \<Rightarrow> val \<Rightarrow> completion \<times> model \<times> bool" where
  "set_top L options unset m triggerChange value firstPc h1 topLevelValue =
     (let m1 = m\<lparr>mheap := h1\<rparr> in
      if isEqual L h1 value topLevelValue then (Normal, m1, triggerChange)
      else (case oldSet_silent m1 firstPc value unset of
              Inl e \<Rightarrow> (Throw e, m1, True)
            | Inr m2 \<Rightarrow>
                (Normal,
                 trigger m2 (''change:'' @ firstPc) [AModel, AVal value, AVal options],
                 True)))"

definition set_pair ::
  "lib \<Rightarrow> val \<Rightarrow> bool \<Rightarrow> model \<times> bool \<Rightarrow> string \<times> val \<Rightarrow> completion \<times> model \<times> bool" where
  "set_pair L options unset mt av =
     (case mt of (m, triggerChange) \<Rightarrow>
      case av of (attribute, value) \<Rightarrow>
      let pcs0 = split_dot attribute;
          firstPc = hd pcs0;
          pcs = tl pcs0
      in case clone (mheap m) (oldGet m firstPc) of
           Inl e \<Rightarrow> (Throw e, m, triggerChange)
         | Inr (h1, topLevelValue) \<Rightarrow>
             if length pcs > 0
             then set_nested L options unset m triggerChange attribute value firstPc pcs h1 topLevelValue
             else set_top L options unset m triggerChange value firstPc h1 topLevelValue)"

text \<open>
  \<open>_.each\<close> over the hash.  Underscore takes an object whose \<open>length\<close> is a number
  from 0 to \<open>2^53 - 1\<close> for an array: it then visits the indices below \<open>length\<close>, and
  the callback turns the index into a string.  Any other object is visited by its own
  keys, in order.  A throw ends the loop.
\<close>

definition each_pairs :: "(string \<times> val) list \<Rightarrow> (string \<times> val) list" where
  "each_pairs attrHash =
     (case (case map_of attrHash ''length'' of
              Some x \<Rightarrow> x | None \<Rightarrow> object_member ''length'') of
        Num n \<Rightarrow>
          if 0 \<le> n \<and> n \<le> 2 ^ 53 - 1
          then map (\<lambda>i. (nat_to_string i,
                          (case map_of attrHash (nat_to_string i) of
                             Some x \<Rightarrow> x | None \<Rightarrow> object_member (nat_to_string i))))
                 [0 ..< nat n]
          else attrHash
      | _ \<Rightarrow> attrHash)"

fun set_each ::
  "lib \<Rightarrow> val \<Rightarrow> bool \<Rightarrow> model \<times> bool \<Rightarrow> (string \<times> val) list \<Rightarrow> completion \<times> model \<times> bool" where
  "set_each L options unset mt [] = (Normal, mt)"
| "set_each L options unset mt (av # avs) =
     (case set_pair L options unset mt av of
        (Throw e, mt') \<Rightarrow> (Throw e, mt')
      | (Normal, mt') \<Rightarrow> set_each L options unset mt' avs)"

definition set_attrs ::
  "lib \<Rightarrow> model \<Rightarrow> (string \<times> val) list \<Rightarrow> val \<Rightarrow> completion \<times> model" where
  "set_attrs L m attrHash options =
     (case silent_unset (mheap m) options of
        Inl e \<Rightarrow> (Throw e, m)
      | Inr unset \<Rightarrow>
          (case set_each L options unset (m, False) (each_pairs attrHash) of
             (Throw e, m', triggerChange) \<Rightarrow> (Throw e, m')
           | (Normal, m', triggerChange) \<Rightarrow>
               (Normal, if triggerChange then trigger m' ''change'' [AModel, AVal options] else m')))"

text \<open>
  \<open>set(key, val, options)\<close> with a string key: the hash is a new object with
  \<open>attrHash[key] = val\<close>.  The hash and \<open>silentOptions\<close> are dropped when the call
  ends, and take no address in the heap.
\<close>

definition set_key :: "lib \<Rightarrow> model \<Rightarrow> string \<Rightarrow> val \<Rightarrow> val \<Rightarrow> completion \<times> model" where
  "set_key L m key val options =
     (case put_named [] key val of
        Inl e \<Rightarrow> (Throw e, m)
      | Inr attrHash \<Rightarrow> set_attrs L m attrHash options)"

text \<open>
  \<open>set(hash, options)\<close> with a plain object as the hash, given by its own properties:
  the options default to a new empty object when the second argument is falsy.
\<close>

definition set_hash :: "lib \<Rightarrow> model \<Rightarrow> (string \<times> val) list \<Rightarrow> val \<Rightarrow> completion \<times> model" where
  "set_hash L m attrHash val =
     (if truthy val then set_attrs L m attrHash val
      else (case alloc (mheap m) (Obj []) of
              (h, options) \<Rightarrow> set_attrs L (m\<lparr>mheap := h\<rparr>) attrHash options))"

section \<open>The decoder\<close>

text \<open>
  \<open>found\<close>, the registry of one \<open>decode\<close> call, is a plain object: \<open>found\<close> holds its
  own properties and \<open>fproto\<close> its prototype, \<open>Object.prototype\<close> at first.  A read
  \<open>found[ref]\<close> of a key the registry does not have itself goes on in the prototype
  chain.  A write \<open>found["__proto__"] = result\<close> is the inherited setter: it makes
  the result the prototype of the registry.  The registry is never enumerated.

  The encoded input is in the heap like any other value, so the recursion of
  \<open>doDecode\<close> is not structural: it is given a bound on its depth, and \<open>None\<close>
  stands for a recursion that did not come back within it.
\<close>

record dstate =
  dheap :: heap
  found :: "(string \<times> val) list"
  fproto :: val

definition JSOG_OBJECT_DECODED :: string where
  "JSOG_OBJECT_DECODED = ''__jsogObjectDecoded''"

definition found_get :: "lib \<Rightarrow> dstate \<Rightarrow> string \<Rightarrow> val" where
  "found_get L s k =
     (case map_of (found s) k of
        Some x \<Rightarrow> x
      | None \<Rightarrow>
          if k = ''__proto__'' then fproto s
          else (case fproto s of
                  Ptr r \<Rightarrow> (case get_prop L (dheap s) (Ptr r) k of Inl e \<Rightarrow> Undefined | Inr x \<Rightarrow> x)
                | Builtin n \<Rightarrow>
                    if n = ''Object.prototype'' then object_member k
                    else inherited L (KBuiltin n) k
                | _ \<Rightarrow> Undefined))"

definition found_put :: "dstate \<Rightarrow> string \<Rightarrow> val \<Rightarrow> dstate" where
  "found_put s k r =
     (if k = ''__proto__'' then s\<lparr>fproto := r\<rparr>
      else s\<lparr>found := AList.update k r (found s)\<rparr>)"

text \<open>
  \<open>x.toString()\<close> for a value that is neither \<open>null\<close> nor \<open>undefined\<close>.  An own
  property \<open>toString\<close> of an object is what gets called, and raises a TypeError when
  it is not a function.  \<open>prop_key\<close> is the property key that a value stands for.
\<close>

definition toString :: "lib \<Rightarrow> heap \<Rightarrow> val \<Rightarrow> error + val" where
  "toString L h v =
     (case v of
        Undefined \<Rightarrow> Inl TypeError
      | Null \<Rightarrow> Inl TypeError
      | Bool b \<Rightarrow> Inr (Str (if b then ''true'' else ''false''))
      | Num n \<Rightarrow> Inr (Str (int_to_string n))
      | Str s \<Rightarrow> Inr (Str s)
      | Ptr a \<Rightarrow>
          (case map_of (case objs h a of Obj ps \<Rightarrow> ps | Arr es ps \<Rightarrow> ps) ''toString'' of
             Some f \<Rightarrow>
               (case f of
                  Builtin n \<Rightarrow> if typeof_function f then callBuiltin L h n v [] else Inl TypeError
                | _ \<Rightarrow> Inl TypeError)
           | None \<Rightarrow>
               (case objs h a of
                  Obj ps \<Rightarrow> Inr (Str ''[object Object]'')
                | Arr es ps \<Rightarrow>
                    (case arrayToString L h a of Inl e \<Rightarrow> Inl e | Inr str \<Rightarrow> Inr (Str str))))
      | Builtin n \<Rightarrow> callBuiltin L h ''toString'' v [])"

definition prop_key :: "val \<Rightarrow> error + string" where
  "prop_key v =
     (case v of
        Undefined \<Rightarrow> Inr ''undefined''
      | Null \<Rightarrow> Inr ''null''
      | Bool b \<Rightarrow> Inr (if b then ''true'' else ''false'')
      | Num n \<Rightarrow> Inr (int_to_string n)
      | Str s \<Rightarrow> Inr s
      | _ \<Rightarrow> Inl OutsideModel)"

text \<open>
  The enumerable own properties of the value that \<open>decodeObject\<close> goes through, and a
  read \<open>encoded[k]\<close> of it.
\<close>

definition own_props :: "heap \<Rightarrow> val \<Rightarrow> (string \<times> val) list" where
  "own_props h v = (case v of Ptr a \<Rightarrow> (case objs h a of Obj ps \<Rightarrow> ps | Arr es ps \<Rightarrow> ps) | _ \<Rightarrow> [])"

definition read_obj :: "lib \<Rightarrow> heap \<Rightarrow> val \<Rightarrow> string \<Rightarrow> val" where
  "read_obj L h v k = (case get_prop L h v k of Inl e \<Rightarrow> Undefined | Inr x \<Rightarrow> x)"

text \<open>
  \<open>encoded.hasOwnProperty(key)\<close>: the method is looked up like any property.  What
  is not a function raises a TypeError; the method of \<open>Object.prototype\<close> says whether
  the key is an own property.
\<close>

definition has_own :: "lib \<Rightarrow> heap \<Rightarrow> val \<Rightarrow> string \<Rightarrow> error + bool" where
  "has_own L h encoded key =
     (case read_obj L h encoded ''hasOwnProperty'' of
        Builtin n \<Rightarrow>
          if builtin_is_object n then Inl TypeError
          else if n = ''Object.prototype.hasOwnProperty''
          then Inr (map_of (own_props h encoded) key \<noteq> None)
          else (case callBuiltin L h n encoded key of Inl e \<Rightarrow> Inl e | Inr r \<Rightarrow> Inr (truthy r))
      | _ \<Rightarrow> Inl TypeError)"

text \<open>
  Lines 25 to 31: the reference.  The result is the value to return, or \<open>None\<close> when
  the object is not a reference.
\<close>

definition decode_ref :: "lib \<Rightarrow> dstate \<Rightarrow> val \<Rightarrow> error + val option" where
  "decode_ref L s encoded =
     (let ref = read_obj L (dheap s) encoded ''@ref'' in
      if nullOrUndefined ref then Inr None
      else (case toString L (dheap s) ref of
              Inl e \<Rightarrow> Inl e
            | Inr ref' \<Rightarrow>
                if nullOrUndefined ref' then Inr None
                else (case prop_key ref' of
                        Inl e \<Rightarrow> Inl e
                      | Inr k \<Rightarrow> Inr (Some (found_get L s k)))))"

text \<open>Lines 33 to 39: the result is registered under the id, when there is one.\<close>

definition decode_id :: "lib \<Rightarrow> dstate \<Rightarrow> val \<Rightarrow> val \<Rightarrow> error + dstate" where
  "decode_id L s encoded result =
     (let id = read_obj L (dheap s) encoded ''@id'' in
      if nullOrUndefined id then Inr s
      else (case toString L (dheap s) id of
              Inl e \<Rightarrow> Inl e
            | Inr id' \<Rightarrow>
                if truthy id'
                then (case prop_key id' of Inl e \<Rightarrow> Inl e | Inr k \<Rightarrow> Inr (found_put s k result))
                else Inr s))"

text \<open>\<open>results.push(x)\<close> on the array the call created.\<close>

definition push :: "dstate \<Rightarrow> addr \<Rightarrow> val \<Rightarrow> dstate" where
  "push s r x =
     s\<lparr>dheap := (dheap s)\<lparr>objs := (objs (dheap s))
        (r := (case objs (dheap s) r of
                 Arr es ps \<Rightarrow> Arr (es @ [x]) ps
               | Obj ps \<Rightarrow> Obj ps))\<rparr>\<rparr>"

text \<open>\<open>result[key] = x\<close>, a write like any other.\<close>

definition set_field :: "dstate \<Rightarrow> addr \<Rightarrow> string \<Rightarrow> val \<Rightarrow> error + dstate" where
  "set_field s r key x =
     (case put_prop (dheap s) (Ptr r) key x of
        Inl e \<Rightarrow> Inl e
      | Inr h \<Rightarrow> Inr (s\<lparr>dheap := h\<rparr>))"

function (sequential)
  doDecode :: "lib \<Rightarrow> nat \<Rightarrow> dstate \<Rightarrow> val \<Rightarrow> (error \<times> dstate + val \<times> dstate) option"
  and decodeFields :: "lib \<Rightarrow> nat \<Rightarrow> dstate \<Rightarrow> val \<Rightarrow> addr \<Rightarrow> (string \<times> val) list
                        \<Rightarrow> (error \<times> dstate + dstate) option"
  and decodeElems :: "lib \<Rightarrow> nat \<Rightarrow> dstate \<Rightarrow> addr \<Rightarrow> val list \<Rightarrow> (error \<times> dstate + dstate) option"
where
  "doDecode L 0 s encoded = None"
| "doDecode L (Suc n) s encoded =
     (if nullOrUndefined encoded then Some (Inr (encoded, s))
      else if (case encoded of
                 Ptr a \<Rightarrow> (case objs (dheap s) a of Arr es ps \<Rightarrow> True | Obj ps \<Rightarrow> False)
               | Builtin b \<Rightarrow> b = ''Array.prototype''
               | _ \<Rightarrow> False)
      then
        (let r = nxt (dheap s);
             s1 = s\<lparr>dheap := new_obj (dheap s) (Arr [] [])\<rparr>
         in case decodeElems L n s1 r
                  (case encoded of
                     Ptr a \<Rightarrow> (case objs (dheap s) a of Arr es ps \<Rightarrow> es | Obj ps \<Rightarrow> [])
                   | _ \<Rightarrow> []) of
              None \<Rightarrow> None
            | Some (Inl es) \<Rightarrow> Some (Inl es)
            | Some (Inr s') \<Rightarrow> Some (Inr (Ptr r, s')))
      else if typeof_object encoded then
        (if read_obj L (dheap s) encoded JSOG_OBJECT_DECODED = Bool True
         then Some (Inr (encoded, s))
         else case decode_ref L s encoded of
                Inl e \<Rightarrow> Some (Inl (e, s))
              | Inr (Some x) \<Rightarrow> Some (Inr (x, s))
              | Inr None \<Rightarrow>
                  (let r = nxt (dheap s);
                       s1 = s\<lparr>dheap := new_obj (dheap s) (Obj [])\<rparr>
                   in case decode_id L s1 encoded (Ptr r) of
                        Inl e \<Rightarrow> Some (Inl (e, s1))
                      | Inr s2 \<Rightarrow>
                          (case decodeFields L n s2 encoded r (own_props (dheap s2) encoded) of
                             None \<Rightarrow> None
                           | Some (Inl es) \<Rightarrow> Some (Inl es)
                           | Some (Inr s3) \<Rightarrow>
                               (case set_field s3 r JSOG_OBJECT_DECODED (Bool True) of
                                  Inl e \<Rightarrow> Some (Inl (e, s3))
                                | Inr s4 \<Rightarrow> Some (Inr (Ptr r, s4))))))
      else Some (Inr (encoded, s)))"
| "decodeFields L n s encoded r [] = Some (Inr s)"
| "decodeFields L n s encoded r (kv # kvs) =
     (case has_own L (dheap s) encoded (fst kv) of
        Inl e \<Rightarrow> Some (Inl (e, s))
      | Inr own \<Rightarrow>
          if own \<and> fst kv \<noteq> ''@id''
          then (case doDecode L n s (snd kv) of
                  None \<Rightarrow> None
                | Some (Inl es) \<Rightarrow> Some (Inl es)
                | Some (Inr (x, s')) \<Rightarrow>
                    (case set_field s' r (fst kv) x of
                       Inl e \<Rightarrow> Some (Inl (e, s'))
                     | Inr s'' \<Rightarrow> decodeFields L n s'' encoded r kvs))
          else decodeFields L n s encoded r kvs)"
| "decodeElems L n s r [] = Some (Inr s)"
| "decodeElems L n s r (value # vs) =
     (case doDecode L n s value of
        None \<Rightarrow> None
      | Some (Inl es) \<Rightarrow> Some (Inl es)
      | Some (Inr (x, s')) \<Rightarrow> decodeElems L n (push s' r x) r vs)"
  by pat_completeness auto

text \<open>
  The depth bound goes down at every call of a loop from \<open>doDecode\<close>; inside a loop
  the list of fields or elements left gets shorter.
\<close>

termination
  by (relation
       "(\<lambda>x. case x of Inl (L, n, s, e) \<Rightarrow> n
                     | Inr (Inl (L, n, s, e, r, kvs)) \<Rightarrow> n
                     | Inr (Inr (L, n, s, r, vs)) \<Rightarrow> n)
        <*mlex*>
        measure (\<lambda>x. case x of Inl (L, n, s, e) \<Rightarrow> 0
                     | Inr (Inl (L, n, s, e, r, kvs)) \<Rightarrow> Suc (length kvs)
                     | Inr (Inr (L, n, s, r, vs)) \<Rightarrow> Suc (length vs))")
     (auto simp: wf_mlex mlex_less mlex_leq)

text \<open>
  The exported function: a new registry for every call.  The result is the value
  returned or the error thrown, with the heap that the call leaves.
\<close>

definition decode :: "lib \<Rightarrow> nat \<Rightarrow> heap \<Rightarrow> val \<Rightarrow> (error \<times> heap + val \<times> heap) option" where
  "decode L n h encoded =
     (case doDecode L n \<lparr>dheap = h, found = [], fproto = Builtin ''Object.prototype''\<rparr> encoded of
        None \<Rightarrow> None
      | Some (Inl (e, s)) \<Rightarrow> Some (Inl (e, dheap s))
      | Some (Inr (v, s)) \<Rightarrow> Some (Inr (v, dheap s)))"

section \<open>A deep equality and a host\<close>

text \<open>
  Where a theorem is evaluated at a concrete input, \<open>_.isEqual\<close> is this comparison:
  identical values, or two arrays of equal length with deeply equal elements, or two
  plain objects with the same number of keys and deeply equal values under each key.
  The depth it descends to is the number of objects in the heap.
\<close>

fun deep_eq :: "nat \<Rightarrow> heap \<Rightarrow> val \<Rightarrow> val \<Rightarrow> bool" where
  "deep_eq 0 h a b = (a = b)"
| "deep_eq (Suc n) h a b =
     (a = b \<or>
      (case (a, b) of
         (Ptr x, Ptr y) \<Rightarrow>
           (case (objs h x, objs h y) of
              (Obj ps, Obj qs) \<Rightarrow>
                length ps = length qs \<and>
                list_all (\<lambda>k. (case (map_of ps k, map_of qs k) of
                                  (Some u, Some v) \<Rightarrow> deep_eq n h u v
                                | _ \<Rightarrow> False)) (map fst ps)
            | (Arr es ps, Arr fs qs) \<Rightarrow>
                length es = length fs \<and>
                list_all (\<lambda>i. deep_eq n h (es ! i) (fs ! i)) [0 ..< length es]
            | _ \<Rightarrow> False)
       | _ \<Rightarrow> False))"

definition deepEqual :: "heap \<Rightarrow> val \<Rightarrow> val \<Rightarrow> bool" where
  "deepEqual h a b = deep_eq (nxt h) h a b"

text \<open>
  The host of the evaluated examples.  Their inputs hold plain objects, arrays and
  scalars only: no run below reads a member that an array, a string, a number, a
  boolean or a built-in inherits, calls a function or needs the string form of an
  array, and this host answers \<open>undefined\<close> and \<open>OutsideModel\<close> there.
\<close>

definition jsLib :: lib where
  "jsLib =
     \<lparr>isEqual = deepEqual,
      inherited = (\<lambda>kd k. Undefined),
      callBuiltin = (\<lambda>h f this arg. Inl OutsideModel),
      arrayToString = (\<lambda>h a. Inl OutsideModel)\<rparr>"

section \<open>Inputs of the examples\<close>

text \<open>A model with no attributes, and a model whose attribute \<open>a\<close> is \<open>null\<close>.\<close>

definition empty_heap :: heap where
  "empty_heap = \<lparr>objs = (\<lambda>a. Obj []), nxt = 0\<rparr>"

definition empty_model :: model where
  "empty_model = \<lparr>mheap = empty_heap, attributes = [], events = []\<rparr>"

definition null_model :: model where
  "null_model = \<lparr>mheap = empty_heap, attributes = [(''a'', Null)], events = []\<rparr>"

text \<open>
  The encoded three-node cycle: \<open>A\<close> at address 0, \<open>B\<close> at 1, \<open>C\<close> at 2, each with
  its \<open>@id\<close> and a field \<open>next\<close>; the \<open>next\<close> of \<open>C\<close> is the object \<open>{"@ref": ida}\<close>
  at address 3.
\<close>

definition cycle3 :: "string \<Rightarrow> string \<Rightarrow> string \<Rightarrow> heap" where
  "cycle3 ida idb idc =
     \<lparr>objs = (\<lambda>a.
        if a = 0 then Obj [(''@id'', Str ida), (''name'', Str ''A''), (''next'', Ptr 1)]
        else if a = 1 then Obj [(''@id'', Str idb), (''name'', Str ''B''), (''next'', Ptr 2)]
        else if a = 2 then Obj [(''@id'', Str idc), (''name'', Str ''C''), (''next'', Ptr 3)]
        else if a = 3 then Obj [(''@ref'', Str ida)]
        else Obj []),
      nxt = 4\<rparr>"



text \<open>
  The object \<open>{"@ref": "constructor"}\<close> at address 0: a reference to an id that
  nothing declares.
\<close>

definition ref_constructor :: heap where
  "ref_constructor =
     \<lparr>objs = (\<lambda>a. if a = 0 then Obj [(''@ref'', Str ''constructor'')] else Obj []),
      nxt = 1\<rparr>"

text \<open>The object \<open>{x: {"@ref": "__proto__"}}\<close> at address 0; no object has the marker.\<close>

definition ref_proto :: heap where
  "ref_proto =
     \<lparr>objs = (\<lambda>a.
        if a = 0 then Obj [(''x'', Ptr 1)]
        else if a = 1 then Obj [(''@ref'', Str ''__proto__'')]
        else Obj []),
      nxt = 2\<rparr>"

text \<open>The array \<open>[{name: "x"}]\<close> at address 0.\<close>

definition array_in :: heap where
  "array_in =
     \<lparr>objs = (\<lambda>a.
        if a = 0 then Arr [Ptr 1] []
        else if a = 1 then Obj [(''name'', Str ''x'')]
        else Obj []),
      nxt = 2\<rparr>"

text \<open>\<open>decode(decode(encoded))\<close>: the two values returned and the last heap.\<close>

definition decode_twice :: "lib \<Rightarrow> nat \<Rightarrow> heap \<Rightarrow> val \<Rightarrow> (val \<times> val \<times> heap) option" where
  "decode_twice L n h encoded =
     (case decode L n h encoded of
        Some (Inr (g, h1)) \<Rightarrow>
          (case decode L n h1 g of
             Some (Inr (g', h2)) \<Rightarrow> Some (g, g', h2)
           | _ \<Rightarrow> None)
      | _ \<Rightarrow> None)"

text \<open>
  What a second \<open>decode\<close> returns as it is: \<open>undefined\<close>, \<open>null\<close>, a boolean, a
  number, a string, and an object of the heap that has the marker with the value
  \<open>true\<close>.
\<close>

definition is_decoded :: "heap \<Rightarrow> val \<Rightarrow> bool" where
  "is_decoded h g =
     (case g of
        Ptr a \<Rightarrow>
          a < nxt h \<and>
          (case objs h a of
             Obj ps \<Rightarrow> map_of ps JSOG_OBJECT_DECODED = Some (Bool True)
           | Arr es ps \<Rightarrow> False)
      | Builtin n \<Rightarrow> False
      | _ \<Rightarrow> True)"



text \<open>
  The heap after \<open>array_in\<close> has been decoded once: the decoded array at address 2,
  its element at address 3.
\<close>

definition array_out :: heap where
  "array_out =
     \<lparr>objs = (\<lambda>a.
        if a = 0 then Arr [Ptr 1] []
        else if a = 1 then Obj [(''name'', Str ''x'')]
        else if a = 2 then Arr [Ptr 3] []
        else if a = 3 then Obj [(''name'', Str ''x''), (''__jsogObjectDecoded'', Bool True)]
        else Obj []),
      nxt = 4\<rparr>"

section \<open>Properties of nested set and get\<close>

text \<open>
  C1. The claim: for every dotted path and every value, \<open>set(p, v)\<close> followed by
  \<open>get(p)\<close> gives a value deep-equal to \<open>v\<close>.  The code does not do that for a path
  of four pieces: on a model without attributes, \<open>set("a.b.c.d", 1)\<close> returns
  normally and \<open>get("a.b.c.d")\<close> is then \<open>undefined\<close>.  The loop of \<open>set\<close> looks every
  piece up in the top-level copy, so the value lands in \<open>a.c.d\<close>, next to an empty
  \<open>a.b\<close>.
\<close>

theorem set_get_four_pieces_lost:
  "(case set_key jsLib empty_model ''a.b.c.d'' (Num 1) Undefined of
      (c, m) \<Rightarrow> c = Normal \<and> get jsLib m ''a.b.c.d'' = Inr Undefined
                \<and> get jsLib m ''a.b'' = Inr (Ptr 1) \<and> objs (mheap m) 1 = Obj []
                \<and> get jsLib m ''a.c.d'' = Inr (Num 1))"
  by code_simp

text \<open>
  C2. The claim: after \<open>set("a.b.c", x)\<close>, \<open>obj = get("a.b")\<close> and \<open>set("a.b.c", y)\<close>,
  \<open>obj.c\<close> is still \<open>x\<close>.  The code copies the top-level object only: the second
  \<open>set\<close> writes \<open>y\<close> into the very object that \<open>get("a.b")\<close> returned.  Here
  \<open>x = "x"\<close> and \<open>y = "y"\<close> on a model without attributes: \<open>obj.c\<close> is \<open>"x"\<close> before
  the second \<open>set\<close> and \<open>"y"\<close> after it.
\<close>

theorem set_mutates_returned_object:
  "(case set_key jsLib empty_model ''a.b.c'' (Str ''x'') Undefined of
      (c1, m1) \<Rightarrow>
        (case get jsLib m1 ''a.b'' of
           Inl e \<Rightarrow> False
         | Inr ob \<Rightarrow>
             (case set_key jsLib m1 ''a.b.c'' (Str ''y'') Undefined of
                (c2, m2) \<Rightarrow>
                  c1 = Normal \<and> c2 = Normal
                  \<and> get_prop jsLib (mheap m1) ob ''c'' = Inr (Str ''x'')
                  \<and> get_prop jsLib (mheap m2) ob ''c'' = Inr (Str ''y'')
                  \<and> get jsLib m2 ''a.b'' = Inr ob
                  \<and> get jsLib m2 ''a.b.c'' = Inr (Str ''y''))))"
  by code_simp

text \<open>
  C6. The claim: setting \<open>a.b.c\<close> to a value that is not deep-equal to the current
  one fires \<open>change:a.b.c\<close> and then \<open>change\<close>.  On a model whose attribute \<open>a\<close> is
  \<open>null\<close> the code fires nothing: \<open>get("a.b.c")\<close> is \<open>null\<close>, which is not deep-equal
  to 1, and \<open>set("a.b.c", 1)\<close> throws a TypeError, with no event fired and the
  attribute as it was.  \<open>typeof null\<close> is \<open>"object"\<close>, so the copy of \<open>null\<close> is not
  replaced by a new object, and \<open>toSet[nextPc]\<close> reads a property of \<open>null\<close>.
\<close>

theorem set_null_parent_throws:
  "(case set_key jsLib null_model ''a.b.c'' (Num 1) Undefined of
      (c, m) \<Rightarrow> c = Throw TypeError \<and> events m = [] \<and> attributes m = [(''a'', Null)])
   \<and> get jsLib null_model ''a.b.c'' = Inr Null
   \<and> \<not> isEqual jsLib (mheap null_model) Null (Num 1)"
  by code_simp

text \<open>
  C7. The claim: after \<open>set(p, v)\<close>, setting the path to a deep-equal value again
  changes nothing and fires nothing.  For the path \<open>a.b.c.d\<close> on a model without
  attributes the second \<open>set("a.b.c.d", 1)\<close> fires \<open>change:a.b.c.d\<close> and \<open>change\<close>
  once more and replaces the attribute \<open>a\<close> by a new object: the first call left the
  value in \<open>a.c.d\<close> (the defect of C1), so \<open>get("a.b.c.d")\<close> is \<open>undefined\<close> and the
  second call does not see that the value is there.
\<close>

theorem set_twice_fires_twice:
  "(case set_key jsLib empty_model ''a.b.c.d'' (Num 1) Undefined of
      (c1, m1) \<Rightarrow>
        (case set_key jsLib m1 ''a.b.c.d'' (Num 1) Undefined of
           (c2, m2) \<Rightarrow>
             c1 = Normal \<and> c2 = Normal
             \<and> attributes m1 = [(''a'', Ptr 0)]
             \<and> attributes m2 = [(''a'', Ptr 3)]
             \<and> events m2 = events m1 @
                  [(''change:a.b.c.d'', [AModel, AVal (Num 1), AVal Undefined]),
                   (''change'', [AModel, AVal Undefined])]))"
  by code_simp

subsection \<open>Reading a path\<close>













section \<open>Properties of the decoder\<close>

text \<open>Reads and writes of the names that the examples use.\<close>

lemma array_index_name: "array_index ''name'' = None"
  by code_simp

lemma array_index_next: "array_index ''next'' = None"
  by code_simp

lemma array_index_marker: "array_index ''__jsogObjectDecoded'' = None"
  by code_simp

lemma member_ref: "object_member ''@ref'' = Undefined"
  by code_simp

lemma member_id: "object_member ''@id'' = Undefined"
  by code_simp

lemma member_marker: "object_member ''__jsogObjectDecoded'' = Undefined"
  by code_simp

lemma member_hasOwn:
  "object_member ''hasOwnProperty'' = Builtin ''Object.prototype.hasOwnProperty''"
  by code_simp

lemma hasOwn_function: "builtin_is_object ''Object.prototype.hasOwnProperty'' = False"
  by code_simp

lemmas plain_simps = array_index_name array_index_next array_index_marker member_ref member_id
  member_marker member_hasOwn hasOwn_function

text \<open>
  C4. Decoding the encoded cycle \<open>A \<rightarrow> B \<rightarrow> C \<rightarrow> A\<close> gives three distinct new
  objects, and \<open>A.next.next.next\<close> is \<open>A\<close> itself: the result object is registered
  under its id before its fields are decoded.  This holds for all ids such that the id
  of \<open>A\<close> is not empty and is not the id of \<open>B\<close> or \<open>C\<close>, for every host and for every
  depth bound of at least four.
\<close>

theorem decode_cycle_identity:
  assumes "ida \<noteq> []" and "idb \<noteq> ida" and "idc \<noteq> ida"
  shows "(case decode L (Suc (Suc (Suc (Suc n)))) (cycle3 ida idb idc) (Ptr 0) of
            Some (Inr (A, h)) \<Rightarrow>
              (case get_prop L h A ''next'' of
                 Inl e \<Rightarrow> False
               | Inr B \<Rightarrow>
                   (case get_prop L h B ''next'' of
                      Inl e \<Rightarrow> False
                    | Inr C \<Rightarrow>
                        get_prop L h C ''next'' = Inr A \<and> B \<noteq> A \<and> C \<noteq> A \<and> C \<noteq> B
                        \<and> A = Ptr 4 \<and> get_prop L h A ''name'' = Inr (Str ''A'')))
          | _ \<Rightarrow> False)"
  using assms
  apply (simp add: decode_def cycle3_def new_obj_def read_obj_def get_prop_def has_own_def
      own_props_def decode_ref_def decode_id_def found_get_def found_put_def set_field_def
      put_prop_def put_named_def put_own_def toString_def prop_key_def JSOG_OBJECT_DECODED_def
      Let_def plain_simps)
  apply blast
  done

theorem decode_cycle_identity_witness:
  "''1'' \<noteq> [] \<and> ''2'' \<noteq> ''1'' \<and> ''3'' \<noteq> ''1'' \<and>
   (case decode jsLib (Suc (Suc (Suc (Suc 0)))) (cycle3 ''1'' ''2'' ''3'') (Ptr 0) of
      Some (Inr (A, h)) \<Rightarrow>
        (case get_prop jsLib h A ''next'' of
           Inl e \<Rightarrow> False
         | Inr B \<Rightarrow>
             (case get_prop jsLib h B ''next'' of
                Inl e \<Rightarrow> False
              | Inr C \<Rightarrow>
                  get_prop jsLib h C ''next'' = Inr A \<and> B \<noteq> A \<and> C \<noteq> A \<and> C \<noteq> B
                  \<and> A = Ptr 4 \<and> get_prop jsLib h A ''name'' = Inr (Str ''A'')))
    | _ \<Rightarrow> False)"
  using decode_cycle_identity [of "''1''" "''2''" "''3''" jsLib 0] by simp







text \<open>
  C8. The claim: a reference to an id that nothing declares resolves to \<open>undefined\<close>.
  The registry is a plain object, and \<open>found[ref]\<close> also finds what the registry
  inherits: \<open>{"@ref": "constructor"}\<close> decodes to the function \<open>Object\<close>, not to
  \<open>undefined\<close>.  (The loop over the fields does guard against inherited names, with
  \<open>hasOwnProperty\<close>.)
\<close>

theorem decode_ref_inherited_name:
  "(case decode jsLib 1 ref_constructor (Ptr 0) of
      Some (Inr (r, h)) \<Rightarrow> r = Builtin ''Object'' \<and> r \<noteq> Undefined \<and> nxt h = 1
    | _ \<Rightarrow> False)"
  by code_simp

text \<open>
  C10. The claim: when no object of the input has the marker, every object in the
  output has it.  Decoding \<open>{x: {"@ref": "__proto__"}}\<close> gives a new object whose
  field \<open>x\<close> is \<open>Object.prototype\<close>, which the registry inherits under that name (the
  defect of C8): an object of the output that \<open>decode\<close> did not make and that has no
  marker.
\<close>

theorem decode_output_unmarked:
  "(case decode jsLib 2 ref_proto (Ptr 0) of
      Some (Inr (r, h)) \<Rightarrow>
        r = Ptr 2
        \<and> objs h 2 = Obj [(''x'', Builtin ''Object.prototype''), (JSOG_OBJECT_DECODED, Bool True)]
        \<and> get_prop jsLib h r ''x'' = Inr (Builtin ''Object.prototype'')
        \<and> object_member JSOG_OBJECT_DECODED = Undefined
    | _ \<Rightarrow> False)"
  by code_simp

subsection \<open>Decoding what has been decoded\<close>

text \<open>
  C3. The claim: \<open>decode\<close> returns the output of an earlier \<open>decode\<close> unchanged, the
  same objects.  For the array \<open>[{name: "x"}]\<close> the first call returns a new array at
  address 2, and the second call, given that array, returns another new array, at
  address 4.
\<close>

theorem decode_array_twice_differs:
  "(case decode_twice jsLib 3 array_in (Ptr 0) of
      Some (g, g', h) \<Rightarrow> g = Ptr 2 \<and> g' = Ptr 4 \<and> g' \<noteq> g
    | None \<Rightarrow> False)"
  by code_simp

lemma doDecode_decoded:
  "is_decoded (dheap s) g \<Longrightarrow> doDecode L (Suc n) s g = Some (Inr (g, s))"
  by (cases g) (auto simp: is_decoded_def read_obj_def get_prop_def split: obj.splits)

lemma is_decoded_new_obj: "is_decoded h x \<Longrightarrow> is_decoded (new_obj h ob) x"
  by (cases x) (auto simp: is_decoded_def new_obj_def)

lemma push_new_array:
  "push \<lparr>dheap = new_obj h (Arr acc []), found = f, fproto = p\<rparr> (nxt h) x
   = \<lparr>dheap = new_obj h (Arr (acc @ [x]) []), found = f, fproto = p\<rparr>"
  by (simp add: push_def new_obj_def)

lemma decodeElems_decoded:
  "\<forall>x\<in>set es. is_decoded h x \<Longrightarrow>
   decodeElems L (Suc n) \<lparr>dheap = new_obj h (Arr acc []), found = f, fproto = p\<rparr> (nxt h) es
   = Some (Inr \<lparr>dheap = new_obj h (Arr (acc @ es) []), found = f, fproto = p\<rparr>)"
proof (induction es arbitrary: acc)
  case Nil
  show ?case by simp
next
  case (Cons x es)
  have "is_decoded (dheap \<lparr>dheap = new_obj h (Arr acc []), found = f, fproto = p\<rparr>) x"
    using Cons.prems by (simp add: is_decoded_new_obj)
  then have "doDecode L (Suc n) \<lparr>dheap = new_obj h (Arr acc []), found = f, fproto = p\<rparr> x
             = Some (Inr (x, \<lparr>dheap = new_obj h (Arr acc []), found = f, fproto = p\<rparr>))"
    by (rule doDecode_decoded)
  moreover have "decodeElems L (Suc n)
                   \<lparr>dheap = new_obj h (Arr (acc @ [x]) []), found = f, fproto = p\<rparr> (nxt h) es
                 = Some (Inr \<lparr>dheap = new_obj h (Arr ((acc @ [x]) @ es) []), found = f, fproto = p\<rparr>)"
    using Cons.prems by (intro Cons.IH) simp
  ultimately show ?case by (simp add: push_new_array)
qed

text \<open>
  C3, as the code has it.  A second \<open>decode\<close> returns \<open>undefined\<close>, \<open>null\<close>, a
  boolean, a number, a string and an object that has the marker as they are, and leaves
  the heap as it was: no object is gone through again or copied.  Of an array of the
  heap it returns a new array, not the array it was given: when the elements are such
  values, the new array holds the same elements, the very objects, and nothing else in
  the heap changes.
\<close>

theorem decode_again:
  "(is_decoded h g \<longrightarrow> decode L (Suc n) h g = Some (Inr (g, h))) \<and>
   (\<forall>a es ps. g = Ptr a \<and> a < nxt h \<and> objs h a = Arr es ps \<and> list_all (is_decoded h) es
       \<longrightarrow> decode L (Suc (Suc n)) h g = Some (Inr (Ptr (nxt h), new_obj h (Arr es [])))
           \<and> Ptr (nxt h) \<noteq> g)"
proof (intro conjI allI impI)
  assume "is_decoded h g"
  then have "doDecode L (Suc n) \<lparr>dheap = h, found = [], fproto = Builtin ''Object.prototype''\<rparr> g
             = Some (Inr (g, \<lparr>dheap = h, found = [], fproto = Builtin ''Object.prototype''\<rparr>))"
    by (intro doDecode_decoded) simp
  then show "decode L (Suc n) h g = Some (Inr (g, h))"
    by (simp add: decode_def del: doDecode.simps)
next
  fix a es ps
  assume A: "g = Ptr a \<and> a < nxt h \<and> objs h a = Arr es ps \<and> list_all (is_decoded h) es"
  then have "\<forall>x\<in>set es. is_decoded h x" by (simp add: list_all_iff)
  then have "decodeElems L (Suc n)
               \<lparr>dheap = new_obj h (Arr [] []), found = [], fproto = Builtin ''Object.prototype''\<rparr>
               (nxt h) es
             = Some (Inr \<lparr>dheap = new_obj h (Arr ([] @ es) []), found = [],
                          fproto = Builtin ''Object.prototype''\<rparr>)"
    by (rule decodeElems_decoded)
  with A show "decode L (Suc (Suc n)) h g = Some (Inr (Ptr (nxt h), new_obj h (Arr es [])))"
    by (simp add: decode_def Let_def)
next
  fix a es ps
  assume "g = Ptr a \<and> a < nxt h \<and> objs h a = Arr es ps \<and> list_all (is_decoded h) es"
  then show "Ptr (nxt h) \<noteq> g" by auto
qed

theorem decode_again_witness:
  "is_decoded array_out (Ptr 3) \<and>
   decode jsLib (Suc 0) array_out (Ptr 3) = Some (Inr (Ptr 3, array_out)) \<and>
   (2::nat) < nxt array_out \<and> objs array_out 2 = Arr [Ptr 3] [] \<and>
   list_all (is_decoded array_out) [Ptr 3] \<and>
   decode jsLib (Suc (Suc 0)) array_out (Ptr 2)
     = Some (Inr (Ptr (nxt array_out), new_obj array_out (Arr [Ptr 3] []))) \<and>
   Ptr (nxt array_out) \<noteq> Ptr 2"
proof -
  have 1: "is_decoded array_out (Ptr 3)" by code_simp
  have 2: "(2::nat) < nxt array_out" by code_simp
  have 3: "objs array_out 2 = Arr [Ptr 3] []" by code_simp
  have 4: "list_all (is_decoded array_out) [Ptr 3]" using 1 by simp
  show ?thesis
    using decode_again [of array_out "Ptr 3" jsLib 0] decode_again [of array_out "Ptr 2" jsLib 0]
      1 2 3 4 by simp
qed

end
